theory Spec2Isabelle
  imports Main "HOL-Library.Sublist" "HOL-Library.AList"
begin

section \<open>Python string operations used by the service\<close>

text \<open>
  A Python \<open>str\<close> is modelled as a \<open>string\<close>; one \<open>char\<close> stands for one code point
  (the 8-bit range). \<open>isspace\<close> lists the code points below 256 for which
  \<open>str.isspace\<close> is true; \<open>str.strip()\<close> removes them from both ends.
\<close>

definition isspace :: "char \<Rightarrow> bool" where
  "isspace c = (of_char c \<in> {9, 10, 11, 12, 13, 28, 29, 30, 31, 32, 133, 160 :: nat})"

definition strip :: "string \<Rightarrow> string" where
  "strip s = rev (dropWhile isspace (rev (dropWhile isspace s)))"

text \<open>
  \<open>text.find(sub)\<close>: the lowest index at which \<open>sub\<close> occurs in \<open>text\<close>, or \<open>-1\<close>.
\<close>

fun find_opt :: "string \<Rightarrow> string \<Rightarrow> nat option" where
  "find_opt [] sub = (if sub = [] then Some 0 else None)"
| "find_opt (c # cs) sub =
     (if prefix sub (c # cs) then Some 0 else map_option Suc (find_opt cs sub))"

definition str_find :: "string \<Rightarrow> string \<Rightarrow> int" where
  "str_find text sub = (case find_opt text sub of None \<Rightarrow> - 1 | Some i \<Rightarrow> int i)"

text \<open>
  \<open>text[a:b]\<close>: a negative bound counts from the end, and every bound is clamped to
  \<open>0 .. len(text)\<close>; the slice is empty when the lower bound is not below the upper one.
  \<open>text[:b]\<close> is \<open>str_slice text 0 b\<close>.
\<close>

definition slice_index :: "nat \<Rightarrow> int \<Rightarrow> nat" where
  "slice_index n i =
     (if i < 0 then (if i + int n < 0 then 0 else nat (i + int n))
      else if int n < i then n else nat i)"

definition str_slice :: "string \<Rightarrow> int \<Rightarrow> int \<Rightarrow> string" where
  "str_slice text a b =
     (let lo = slice_index (length text) a; hi = slice_index (length text) b
      in take (hi - lo) (drop lo text))"

text \<open>
  Truth value of an \<open>Optional[str]\<close> in a condition (\<open>None\<close> and the empty string are
  false), and its rendering inside an f-string.
\<close>

definition truthy :: "string option \<Rightarrow> bool" where
  "truthy x = (case x of None \<Rightarrow> False | Some s \<Rightarrow> s \<noteq> [])"

definition fmt :: "string option \<Rightarrow> string" where
  "fmt x = (case x of None \<Rightarrow> ''None'' | Some s \<Rightarrow> s)"

section \<open>Prompt builder\<close>

definition construct_system_prompt :: string where
  "construct_system_prompt =
     ''\<newline>'' @
     ''You are an expert in loyalty program financial modeling and ROI analysis. Create detailed \<newline>'' @
     ''financial projections that include implementation costs, revenue uplift, and ROI metrics. Consider:\<newline>'' @
     ''\<newline>'' @
     ''1. Cost Structure\<newline>'' @
     ''   - Technology implementation\<newline>'' @
     ''   - Program administration\<newline>'' @
     ''   - Rewards and redemption costs\<newline>'' @
     ''   - Marketing and communication\<newline>'' @
     ''\<newline>'' @
     ''2. Revenue Impact\<newline>'' @
     ''   - Increased purchase frequency\<newline>'' @
     ''   - Higher average transaction value\<newline>'' @
     ''   - Improved retention rates\<newline>'' @
     ''   - New customer acquisition\<newline>'' @
     ''\<newline>'' @
     ''3. ROI Analysis\<newline>'' @
     ''   - Payback period\<newline>'' @
     ''   - Net present value\<newline>'' @
     ''   - Internal rate of return\<newline>'' @
     ''   - Benefit-cost ratio\<newline>'' @
     ''\<newline>'' @
     ''Provide your response in two parts:\<newline>'' @
     ''1. A detailed explanation in natural language\<newline>'' @
     ''2. A structured JSON object with this exact schema:\<newline>'' @
     ''{\<newline>'' @
     ''    \"financial_model\": {\<newline>'' @
     ''        \"summary\": \"Brief overview of financial projections\",\<newline>'' @
     ''        \"total_investment\": 1000000.00,\<newline>'' @
     ''        \"costs\": [\<newline>'' @
     ''            {\<newline>'' @
     ''                \"category\": \"Technology\",\<newline>'' @
     ''                \"year_1\": 500000.00,\<newline>'' @
     ''                \"year_2\": 100000.00,\<newline>'' @
     ''                \"year_3\": 100000.00,\<newline>'' @
     ''                \"description\": \"Description of costs\",\<newline>'' @
     ''                \"assumptions\": [\"assumption1\", \"assumption2\"]\<newline>'' @
     ''            }\<newline>'' @
     ''        ],\<newline>'' @
     ''        \"revenue_uplift\": [\<newline>'' @
     ''            {\<newline>'' @
     ''                \"category\": \"Increased Frequency\",\<newline>'' @
     ''                \"year_1\": 200000.00,\<newline>'' @
     ''                \"year_2\": 400000.00,\<newline>'' @
     ''                \"year_3\": 600000.00,\<newline>'' @
     ''                \"description\": \"Description of impact\",\<newline>'' @
     ''                \"assumptions\": [\"assumption1\", \"assumption2\"]\<newline>'' @
     ''            }\<newline>'' @
     ''        ],\<newline>'' @
     ''        \"roi_metrics\": {\<newline>'' @
     ''            \"payback_period\": \"18 months\",\<newline>'' @
     ''            \"net_present_value\": 1500000.00,\<newline>'' @
     ''            \"irr\": 25.5,\<newline>'' @
     ''            \"benefit_cost_ratio\": 2.5,\<newline>'' @
     ''            \"key_assumptions\": [\"assumption1\", \"assumption2\"]\<newline>'' @
     ''        },\<newline>'' @
     ''        \"sensitivity_analysis\": [\"factor1\", \"factor2\"],\<newline>'' @
     ''        \"risk_factors\": [\"risk1\", \"risk2\"]\<newline>'' @
     ''    }\<newline>'' @
     ''}\<newline>'' @
     ''\<newline>'' @
     ''Separate the two parts with [JSON_START] and [JSON_END] markers.\<newline>''"

definition construct_user_prompt ::
  "string \<Rightarrow> string option \<Rightarrow> string option \<Rightarrow> string option \<Rightarrow> string" where
  "construct_user_prompt company_name program_design existing_output feedback =
     (let prompt = ''Please create a financial model for '' @ company_name @ '''s loyalty program.'';
          prompt = (if truthy program_design
                    then prompt @ ''\<newline>\<newline>Consider this program design: '' @ fmt program_design
                    else prompt);
          prompt = (if truthy existing_output \<and> truthy feedback
                    then prompt @ ''\<newline>\<newline>\<newline>Previous financial model: '' @ fmt existing_output
                           @ ''\<newline>\<newline>Please refine the model based on this feedback: '' @ fmt feedback
                           @ ''\<newline>''
                    else prompt)
      in prompt)"

section \<open>Errors and external collaborators\<close>

text \<open>
  \<open>HTTPException\<close> is the exception the code raises itself. A request body that lacks a
  required field is rejected by the framework before the handler runs
  (\<open>RequestValidationError\<close>, status 422); a \<open>ValidationError\<close> raised while the handler
  builds its response object is not caught and surfaces as a plain 500.
\<close>

datatype exn =
    HTTPException (status_code: nat) (detail: string)
  | RequestValidationError "string list"
  | ValidationError

fun response_status :: "exn \<Rightarrow> nat" where
  "response_status (HTTPException s d) = s"
| "response_status (RequestValidationError fields) = 422"
| "response_status ValidationError = 500"

record chat_request =
  model :: string
  messages :: "(string \<times> string) list"
  temperature :: string
  max_tokens :: nat

text \<open>
  What the module takes from its libraries, as a record of functions:
  \<^item> \<open>create\<close>: \<open>client.chat.completions.create(...).choices[0].message.content\<close>;
    \<open>Inl m\<close> when the call raises an exception \<open>e\<close> with \<open>str(e) = m\<close>, \<open>Inr None\<close> when the
    completion carries no text;
  \<^item> \<open>json_loads\<close>: \<open>json.loads\<close>, \<open>Inl m\<close> when it raises with \<open>str(e) = m\<close>;
  \<^item> \<open>exception_str\<close>: \<open>str(e)\<close> of an exception raised by the module itself;
  \<^item> \<open>validate_dict\<close>: the validation of a \<open>Dict\<close> field, \<open>None\<close> when it is refused.
\<close>

record 'j env =
  create :: "chat_request \<Rightarrow> string + string option"
  json_loads :: "string \<Rightarrow> string + 'j"
  exception_str :: "exn \<Rightarrow> string"
  validate_dict :: "'j \<Rightarrow> 'j option"

section \<open>Response parser\<close>

definition extract_json_from_text :: "'j env \<Rightarrow> string \<Rightarrow> exn + 'j" where
  "extract_json_from_text env text =
     (let start_marker = ''[JSON_START]'';
          end_marker = ''[JSON_END]'';
          json_str = strip (str_slice text
                       (str_find text start_marker + int (length start_marker))
                       (str_find text end_marker))
      in case json_loads env json_str of
           Inl e \<Rightarrow> Inl (HTTPException 500
                      (''Failed to parse structured data from response: '' @ e))
         | Inr v \<Rightarrow> Inr v)"

section \<open>Completion client and request handler\<close>

text \<open>
  Both functions return the list of requests sent to the completion provider together
  with their outcome. Every exception raised inside the \<open>try\<close> block of
  \<open>generate_financial_model\<close>, the \<open>HTTPException\<close> of the parser included, is replaced
  by an \<open>HTTPException\<close> with status 500 whose detail is \<open>str(e)\<close>.
\<close>

definition generate_financial_model ::
  "'j env \<Rightarrow> string \<Rightarrow> string option \<Rightarrow> string option \<Rightarrow> string option
     \<Rightarrow> chat_request list \<times> (exn + string \<times> 'j)" where
  "generate_financial_model env company_name program_design existing_output feedback =
     (let request = \<lparr>model = ''gpt-4'',
                     messages = [(''system'', construct_system_prompt),
                                 (''user'', construct_user_prompt company_name program_design
                                              existing_output feedback)],
                     temperature = ''0.7'',
                     max_tokens = 2500\<rparr>
      in ([request],
          case create env request of
            Inl e \<Rightarrow> Inl (HTTPException 500 e)
          | Inr None \<Rightarrow>
              Inl (HTTPException 500
                (CHR 0x27 # ''NoneType'' @ CHR 0x27 # '' object has no attribute '' @
                 CHR 0x27 # ''find'' @ [CHR 0x27]))
          | Inr (Some full_response) \<Rightarrow>
              (let analysis = strip (str_slice full_response 0
                                (str_find full_response ''[JSON_START]''))
               in case extract_json_from_text env full_response of
                    Inl e \<Rightarrow> Inl (HTTPException 500 (exception_str env e))
                  | Inr structured \<Rightarrow> Inr (analysis, structured))))"

record PreviousData =
  loyalty_program_design :: "string option"

record CurrentPromptData =
  existing_generated_output :: string
  user_feedback :: string

record 'o FinancialModelRequest =
  company_name :: string
  previous_data :: "PreviousData option"
  current_prompt_data :: "CurrentPromptData option"
  other_input_data :: 'o

record 'j FinancialModelResponse =
  generated_output :: string
  structured_data :: 'j

definition generate_model ::
  "'j env \<Rightarrow> 'o FinancialModelRequest
     \<Rightarrow> chat_request list \<times> (exn + 'j FinancialModelResponse)" where
  "generate_model env request =
     (let program_design =
            (case previous_data request of
               None \<Rightarrow> None
             | Some pd \<Rightarrow> loyalty_program_design pd);
          existing_output =
            (case current_prompt_data request of
               None \<Rightarrow> None
             | Some cpd \<Rightarrow> Some (existing_generated_output cpd));
          feedback =
            (case current_prompt_data request of
               None \<Rightarrow> None
             | Some cpd \<Rightarrow> Some (user_feedback cpd));
          (calls, outcome) =
            generate_financial_model env (company_name request) program_design
              existing_output feedback
      in (calls,
          case outcome of
            Inl e \<Rightarrow> Inl e
          | Inr (generated_text, structured) \<Rightarrow>
              (case validate_dict env structured of
                 None \<Rightarrow> Inl ValidationError
               | Some d \<Rightarrow>
                   Inr \<lparr>generated_output = generated_text, structured_data = d\<rparr>)))"

text \<open>
  JSON values: what a request body carries in \<open>other_input_data\<close>, and what the reference
  decoder below produces. A float is kept as its literal.
\<close>

datatype json =
    JNull
  | JBool bool
  | JInt int
  | JFloat string
  | JString string
  | JArray "json list"
  | JObject "(string \<times> json) list"

text \<open>
  The route \<open>POST /generate\<close>. The body is taken after decoding. A field that the request
  classes declare without a default is an option (\<open>None\<close>: absent or null):
  \<open>company_name\<close>, and both fields of \<open>current_prompt_data\<close> when that object is given.
  \<open>other_input_data\<close> is declared \<open>Optional[Dict]\<close> with default \<open>{}\<close>: the body holds the
  JSON value sent for it, if any; an absent field becomes \<open>{}\<close>, \<open>null\<close> becomes \<open>None\<close>, and
  any other value goes through the validation of a \<open>Dict\<close> field. When a required field is
  missing or \<open>other_input_data\<close> is refused, the framework answers 422, naming the fields,
  and does not call the handler.
\<close>

record CurrentPromptBody =
  body_existing_generated_output :: "string option"
  body_user_feedback :: "string option"

record RequestBody =
  body_company_name :: "string option"
  body_previous_data :: "PreviousData option"
  body_current_prompt_data :: "CurrentPromptBody option"
  body_other_input_data :: "json option"

definition missing_fields :: "RequestBody \<Rightarrow> string list" where
  "missing_fields body =
     (if body_company_name body = None then [''company_name''] else []) @
     (case body_current_prompt_data body of
        None \<Rightarrow> []
      | Some cpb \<Rightarrow>
          (if body_existing_generated_output cpb = None
           then [''current_prompt_data.existing_generated_output''] else []) @
          (if body_user_feedback cpb = None
           then [''current_prompt_data.user_feedback''] else []))"

definition validate_current_prompt_data ::
  "CurrentPromptBody option \<Rightarrow> CurrentPromptData option option" where
  "validate_current_prompt_data b =
     (case b of
        None \<Rightarrow> Some None
      | Some cpb \<Rightarrow>
          (case (body_existing_generated_output cpb, body_user_feedback cpb) of
             (Some eo, Some fb) \<Rightarrow>
               Some (Some \<lparr>existing_generated_output = eo, user_feedback = fb\<rparr>)
           | _ \<Rightarrow> None))"

definition validate_other_input_data :: "json env \<Rightarrow> json option \<Rightarrow> json option option" where
  "validate_other_input_data env b =
     (case b of
        None \<Rightarrow> Some (Some (JObject []))
      | Some v \<Rightarrow> if v = JNull then Some None else map_option Some (validate_dict env v))"

definition invalid_fields :: "json env \<Rightarrow> RequestBody \<Rightarrow> string list" where
  "invalid_fields env body =
     (if validate_other_input_data env (body_other_input_data body) = None
      then [''other_input_data''] else [])"

definition validate_request ::
  "json env \<Rightarrow> RequestBody \<Rightarrow> exn + (json option) FinancialModelRequest" where
  "validate_request env body =
     (case (body_company_name body,
            validate_current_prompt_data (body_current_prompt_data body),
            validate_other_input_data env (body_other_input_data body)) of
        (Some name, Some cpd, Some other) \<Rightarrow>
          Inr \<lparr>company_name = name,
               previous_data = body_previous_data body,
               current_prompt_data = cpd,
               other_input_data = other\<rparr>
      | _ \<Rightarrow> Inl (RequestValidationError (missing_fields body @ invalid_fields env body)))"

definition post_generate ::
  "json env \<Rightarrow> RequestBody \<Rightarrow> chat_request list \<times> (exn + json FinancialModelResponse)" where
  "post_generate env body =
     (case validate_request env body of
        Inl e \<Rightarrow> ([], Inl e)
      | Inr request \<Rightarrow> generate_model env request)"

section \<open>A reference JSON decoder and a test environment\<close>

text \<open>
  The theorems below hold for every decoder passed as \<open>json_loads\<close>. To run the service on
  concrete texts, \<open>json_decode\<close> follows the scanner of CPython's \<open>json\<close> module (the
  classic behaviour, before the trailing-comma messages of 3.13) on 8-bit texts: objects
  (a repeated key keeps its first position and its last value, as a \<open>dict\<close> does),
  arrays, strings, the literals and numbers; an error carries the message and the
  position (line, column, character offset) of \<open>JSONDecodeError\<close>. Two things lie outside
  the model: a float is kept as its literal (\<open>JFloat\<close>), and a \<open>\uXXXX\<close> escape above
  code point 255 is refused. An error position is passed around as the length of the input
  that remains at that position.
\<close>

type_synonym 'a scan = "(string \<times> nat) + ('a \<times> string)"

definition is_ws :: "char \<Rightarrow> bool" where
  "is_ws c = (c = CHR '' '' \<or> c = CHR 0x09 \<or> c = CHR 0x0A \<or> c = CHR 0x0D)"

definition skip_ws :: "string \<Rightarrow> string" where
  "skip_ws s = dropWhile is_ws s"

definition is_digit :: "char \<Rightarrow> bool" where
  "is_digit c = (48 \<le> (of_char c :: nat) \<and> (of_char c :: nat) \<le> 57)"

definition digit_val :: "char \<Rightarrow> nat" where
  "digit_val c = of_char c - 48"

definition nat_of_digits :: "string \<Rightarrow> nat" where
  "nat_of_digits ds = foldl (\<lambda>n c. 10 * n + digit_val c) 0 ds"

fun show_nat :: "nat \<Rightarrow> string" where
  "show_nat n =
     (if n < 10 then [char_of (48 + n)]
      else show_nat (n div 10) @ [char_of (48 + n mod 10)])"

definition unescape :: "char \<Rightarrow> char option" where
  "unescape e =
     (if e = CHR 0x22 \<or> e = CHR 0x5C \<or> e = CHR ''/'' then Some e
      else if e = CHR ''b'' then Some (CHR 0x08)
      else if e = CHR ''f'' then Some (CHR 0x0C)
      else if e = CHR ''n'' then Some (CHR 0x0A)
      else if e = CHR ''r'' then Some (CHR 0x0D)
      else if e = CHR ''t'' then Some (CHR 0x09)
      else None)"

definition hex_val :: "char \<Rightarrow> nat option" where
  "hex_val c =
     (if is_digit c then Some (digit_val c)
      else if 97 \<le> (of_char c :: nat) \<and> (of_char c :: nat) \<le> 102 then Some (of_char c - 87)
      else if 65 \<le> (of_char c :: nat) \<and> (of_char c :: nat) \<le> 70 then Some (of_char c - 55)
      else None)"

fun scanstring :: "nat \<Rightarrow> string \<Rightarrow> string \<Rightarrow> string scan" where
  "scanstring start acc [] = Inl (''Unterminated string starting at'', start)"
| "scanstring start acc (c # cs) =
     (if c = CHR 0x22 then Inr (acc, cs)
      else if c = CHR 0x5C then
        (case cs of
           [] \<Rightarrow> Inl (''Unterminated string starting at'', start)
         | e # es \<Rightarrow>
             (if e = CHR ''u'' then
                (case es of
                   h1 # h2 # h3 # h4 # r # rs \<Rightarrow>
                     (case (hex_val h1, hex_val h2, hex_val h3, hex_val h4) of
                        (Some a, Some b, Some c', Some d) \<Rightarrow>
                          (if a = 0 \<and> b = 0
                           then scanstring start (acc @ [char_of (16 * c' + d)]) (r # rs)
                           else Inl (''Code point above 255 in '' @ CHR 0x5C # ''uXXXX escape'', length (e # es)))
                      | _ \<Rightarrow> Inl (''Invalid '' @ CHR 0x5C # ''uXXXX escape'', length (e # es)))
                 | _ \<Rightarrow> Inl (''Invalid '' @ CHR 0x5C # ''uXXXX escape'', length (e # es)))
              else
                (case unescape e of
                   None \<Rightarrow> Inl (''Invalid '' @ CHR 0x5C # ''escape'', length (c # cs))
                 | Some ch \<Rightarrow> scanstring start (acc @ [ch]) es)))
      else if (of_char c :: nat) \<le> 31 then
        Inl (''Invalid control character at'', length (c # cs))
      else scanstring start (acc @ [c]) cs)"

definition match_number :: "string \<Rightarrow> (json \<times> string) option" where
  "match_number s =
     (let (sign, s1) = (case s of c # cs \<Rightarrow> if c = CHR ''-'' then ([c], cs) else ([], s) | [] \<Rightarrow> ([], s));
          (ip, s2) = (case s1 of
                        [] \<Rightarrow> ([], s1)
                      | c # cs \<Rightarrow>
                          if c = CHR ''0'' then ([c], cs)
                          else if is_digit c then (c # takeWhile is_digit cs, dropWhile is_digit cs)
                          else ([], s1))
      in if ip = [] then None
         else
           (let (frac, s3) = (case s2 of
                                d # f # fs \<Rightarrow>
                                  if d = CHR ''.'' \<and> is_digit f
                                  then (d # f # takeWhile is_digit fs, dropWhile is_digit fs)
                                  else ([], s2)
                              | _ \<Rightarrow> ([], s2));
                (ex, s4) = (case s3 of
                              e # es \<Rightarrow>
                                if (e = CHR ''e'' \<or> e = CHR ''E'') \<and> es \<noteq> [] then
                                  (let (sg, es') = (case es of
                                                      g # gs \<Rightarrow>
                                                        if (g = CHR ''-'' \<or> g = CHR ''+'') \<and> gs \<noteq> []
                                                        then ([g], gs) else ([], es)
                                                    | [] \<Rightarrow> ([], es));
                                       ds = takeWhile is_digit es'
                                   in if ds = [] then ([], s3)
                                      else (e # sg @ ds, dropWhile is_digit es'))
                                else ([], s3)
                            | [] \<Rightarrow> ([], s3))
            in if frac = [] \<and> ex = []
               then Some (JInt (if sign = [] then int (nat_of_digits ip)
                                else - int (nat_of_digits ip)), s4)
               else Some (JFloat (sign @ ip @ frac @ ex), s4)))"

definition match_literal :: "string \<Rightarrow> (json \<times> string) option" where
  "match_literal s =
     (if prefix ''null'' s then Some (JNull, drop 4 s)
      else if prefix ''true'' s then Some (JBool True, drop 4 s)
      else if prefix ''false'' s then Some (JBool False, drop 5 s)
      else if prefix ''NaN'' s then Some (JFloat ''NaN'', drop 3 s)
      else if prefix ''Infinity'' s then Some (JFloat ''Infinity'', drop 8 s)
      else if prefix ''-Infinity'' s then Some (JFloat ''-Infinity'', drop 9 s)
      else match_number s)"

fun scan_once :: "nat \<Rightarrow> string \<Rightarrow> json scan"
  and parse_array :: "nat \<Rightarrow> json list \<Rightarrow> string \<Rightarrow> json scan"
  and parse_object :: "nat \<Rightarrow> (string \<times> json) list \<Rightarrow> string \<Rightarrow> json scan" where
  "scan_once 0 s = Inl (''maximum recursion depth exceeded'', length s)"
| "scan_once (Suc n) s =
     (case s of
        [] \<Rightarrow> Inl (''Expecting value'', 0)
      | c # cs \<Rightarrow>
          if c = CHR 0x22 then
            (case scanstring (length s) [] cs of
               Inl e \<Rightarrow> Inl e
             | Inr (str, rest) \<Rightarrow> Inr (JString str, rest))
          else if c = CHR ''{'' then
            (let s1 = skip_ws cs
             in case s1 of
                  [] \<Rightarrow> parse_object n [] s1
                | d # ds \<Rightarrow> if d = CHR ''}'' then Inr (JObject [], ds) else parse_object n [] s1)
          else if c = CHR ''['' then
            (let s1 = skip_ws cs
             in case s1 of
                  [] \<Rightarrow> parse_array n [] s1
                | d # ds \<Rightarrow> if d = CHR '']'' then Inr (JArray [], ds) else parse_array n [] s1)
          else
            (case match_literal s of
               None \<Rightarrow> Inl (''Expecting value'', length s)
             | Some r \<Rightarrow> Inr r))"
| "parse_array 0 acc s = Inl (''maximum recursion depth exceeded'', length s)"
| "parse_array (Suc n) acc s =
     (case scan_once n s of
        Inl e \<Rightarrow> Inl e
      | Inr (v, rest) \<Rightarrow>
          (let s1 = skip_ws rest
           in case s1 of
                [] \<Rightarrow> Inl (''Expecting '' @ CHR 0x27 # '','' @ CHR 0x27 # '' delimiter'', 0)
              | d # ds \<Rightarrow>
                  if d = CHR '']'' then Inr (JArray (acc @ [v]), ds)
                  else if d = CHR '','' then parse_array n (acc @ [v]) (skip_ws ds)
                  else Inl (''Expecting '' @ CHR 0x27 # '','' @ CHR 0x27 # '' delimiter'',
                            length s1)))"
| "parse_object 0 acc s = Inl (''maximum recursion depth exceeded'', length s)"
| "parse_object (Suc n) acc s =
     (case s of
        [] \<Rightarrow> Inl (''Expecting property name enclosed in double quotes'', 0)
      | q # qs \<Rightarrow>
          if q \<noteq> CHR 0x22 then
            Inl (''Expecting property name enclosed in double quotes'', length s)
          else
            (case scanstring (length s) [] qs of
               Inl e \<Rightarrow> Inl e
             | Inr (key, rest) \<Rightarrow>
                 (let s1 = skip_ws rest
                  in case s1 of
                       [] \<Rightarrow> Inl (''Expecting '' @ CHR 0x27 # '':'' @ CHR 0x27 # '' delimiter'', 0)
                     | d # ds \<Rightarrow>
                         if d \<noteq> CHR '':'' then
                           Inl (''Expecting '' @ CHR 0x27 # '':'' @ CHR 0x27 # '' delimiter'',
                                length s1)
                         else
                           (case scan_once n (skip_ws ds) of
                              Inl e \<Rightarrow> Inl e
                            | Inr (v, rest2) \<Rightarrow>
                                (let s2 = skip_ws rest2; acc' = AList.update key v acc
                                 in case s2 of
                                      [] \<Rightarrow> Inl (''Expecting '' @ CHR 0x27 # '','' @ CHR 0x27 #
                                                  '' delimiter'', 0)
                                    | g # gs \<Rightarrow>
                                        if g = CHR ''}'' then Inr (JObject acc', gs)
                                        else if g = CHR '','' then parse_object n acc' (skip_ws gs)
                                        else Inl (''Expecting '' @ CHR 0x27 # '','' @ CHR 0x27 #
                                                    '' delimiter'', length s2))))))"

definition errmsg :: "string \<Rightarrow> string \<Rightarrow> nat \<Rightarrow> string" where
  "errmsg msg doc pos =
     (let pre = take pos doc;
          lineno = length (filter (\<lambda>c. c = CHR 0x0A) pre) + 1;
          colno = length (takeWhile (\<lambda>c. c \<noteq> CHR 0x0A) (rev pre)) + 1
      in msg @ '': line '' @ show_nat lineno @ '' column '' @ show_nat colno @
         '' (char '' @ show_nat pos @ '')'')"

definition json_decode :: "string \<Rightarrow> string + json" where
  "json_decode s =
     (case scan_once (2 * length s + 2) (skip_ws s) of
        Inl (msg, k) \<Rightarrow> Inl (errmsg msg s (length s - k))
      | Inr (v, rest) \<Rightarrow>
          (let rest' = skip_ws rest
           in if rest' = [] then Inr v
              else Inl (errmsg ''Extra data'' s (length s - length rest'))))"

text \<open>
  \<open>str(e)\<close> of an \<open>HTTPException\<close> as current Starlette prints it, \<open>Dict\<close> validation
  accepting JSON objects, and the environment of the end-to-end scenarios: the provider is
  replaced by one that returns a fixed text.
\<close>

definition http_exception_str :: "exn \<Rightarrow> string" where
  "http_exception_str e =
     (case e of
        HTTPException s d \<Rightarrow> show_nat s @ '': '' @ d
      | _ \<Rightarrow> [])"

definition json_dict :: "json \<Rightarrow> json option" where
  "json_dict v = (case v of JObject kvs \<Rightarrow> Some v | _ \<Rightarrow> None)"

definition mock_env :: "string \<Rightarrow> json env" where
  "mock_env text =
     \<lparr>create = (\<lambda>request. Inr (Some text)),
      json_loads = json_decode,
      exception_str = http_exception_str,
      validate_dict = json_dict\<rparr>"

text \<open>
  The request of the end-to-end scenario, \<open>{"company_name": "Acme Corp"}\<close>, after
  validation, and a request body with a given company name and nothing else.
\<close>

definition acme :: "(json option) FinancialModelRequest" where
  "acme = \<lparr>company_name = ''Acme Corp'', previous_data = None, current_prompt_data = None,
           other_input_data = Some (JObject [])\<rparr>"

definition body_of :: "string option \<Rightarrow> RequestBody" where
  "body_of name = \<lparr>body_company_name = name, body_previous_data = None,
                   body_current_prompt_data = None, body_other_input_data = None\<rparr>"

section \<open>Observing the prompts sent\<close>

text \<open>The contents of the messages with a given role, over the requests sent.\<close>

definition sent_prompts :: "chat_request list \<Rightarrow> string \<Rightarrow> string list" where
  "sent_prompts calls role =
     concat (map (\<lambda>call. map snd (filter (\<lambda>m. fst m = role) (messages call))) calls)"


section \<open>Searching and slicing\<close>


lemma find_opt_occurs:
  "find_opt t sub = Some i \<Longrightarrow> prefix sub (drop i t)"
proof (induction t arbitrary: i)
  case Nil
  then show ?case by (simp split: if_splits)
next
  case (Cons c cs)
  show ?case
  proof (cases "prefix sub (c # cs)")
    case True
    with Cons.prems show ?thesis by simp
  next
    case False
    with Cons.prems obtain j where "find_opt cs sub = Some j" "i = Suc j" by auto
    with Cons.IH show ?thesis by fastforce
  qed
qed

lemma find_opt_least:
  "find_opt t sub = Some i \<Longrightarrow> j < i \<Longrightarrow> \<not> prefix sub (drop j t)"
proof (induction t arbitrary: i j)
  case Nil
  then show ?case by (simp split: if_splits)
next
  case (Cons c cs)
  from Cons.prems have np: "\<not> prefix sub (c # cs)" by (auto split: if_splits)
  with Cons.prems obtain k where k: "find_opt cs sub = Some k" "i = Suc k" by auto
  show ?case
  proof (cases j)
    case 0
    with np show ?thesis by simp
  next
    case (Suc j')
    with Cons.prems k have "j' < k" by simp
    with Cons.IH k Suc show ?thesis by simp
  qed
qed

lemma find_opt_None_iff: "find_opt t sub = None \<longleftrightarrow> \<not> sublist sub t"
  by (induction t) (auto simp: sublist_Cons_right)

lemma find_opt_first:
  assumes "c \<notin> set s'" and "\<not> sublist (c # s') A"
  shows "find_opt (A @ (c # s') @ rest) (c # s') = Some (length A)"
  using assms(2)
proof (induction A)
  case Nil
  then show ?case by simp
next
  case (Cons a A)
  have "\<not> prefix (c # s') ((a # A) @ (c # s') @ rest)"
  proof
    assume "prefix (c # s') ((a # A) @ (c # s') @ rest)"
    then consider "prefix (c # s') (a # A)"
      | us where "c # s' = (a # A) @ us" "prefix us ((c # s') @ rest)"
      by (auto simp: prefix_append)
    then show False
    proof cases
      case 1
      then have "sublist (c # s') (a # A)" by (rule prefix_imp_sublist)
      with Cons.prems show False by simp
    next
      case 2
      show False
      proof (cases us)
        case Nil
        with 2 have "c # s' = a # A" by simp
        with Cons.prems show False by simp
      next
        case (Cons u us')
        with 2 have "u = c" by simp
        with 2 Cons have "c \<in> set s'" by (cases A) auto
        with assms(1) show False by simp
      qed
    qed
  qed
  moreover from Cons.prems have "\<not> sublist (c # s') A"
    by (auto simp: sublist_Cons_right)
  ultimately show ?case using Cons.IH by simp
qed

lemma slice_index_nat: "n \<le> len \<Longrightarrow> slice_index len (int n) = n"
  by (simp add: slice_index_def)

lemma str_slice_nat:
  "a \<le> length t \<Longrightarrow> b \<le> length t \<Longrightarrow>
     str_slice t (int a) (int b) = take (b - a) (drop a t)"
  by (simp add: str_slice_def slice_index_nat Let_def)

lemma end_marker_between:
  "sublist ''[JSON_END]'' (A @ ''[JSON_START]'' @ J)
     \<longleftrightarrow> sublist ''[JSON_END]'' A \<or> sublist ''[JSON_END]'' J"
proof
  assume "sublist ''[JSON_END]'' (A @ ''[JSON_START]'' @ J)"
  then consider "sublist ''[JSON_END]'' A" | "sublist ''[JSON_END]'' (''[JSON_START]'' @ J)"
    | p1 p2 where "''[JSON_END]'' = p1 @ p2" "suffix p1 A" "prefix p2 (''[JSON_START]'' @ J)"
    by (auto simp: sublist_append)
  then show "sublist ''[JSON_END]'' A \<or> sublist ''[JSON_END]'' J"
  proof cases
    case 1 then show ?thesis by simp
  next
    case 2 then show ?thesis by (simp add: sublist_Cons_right)
  next
    case 3
    show ?thesis
    proof (cases p2)
      case Nil
      with 3 have "suffix ''[JSON_END]'' A" by simp
      then show ?thesis by (simp add: suffix_imp_sublist)
    next
      case (Cons x xs)
      with 3 have x: "x = CHR ''[''" by simp
      show ?thesis
      proof (cases p1)
        case Nil
        with 3 have "prefix ''[JSON_END]'' (''[JSON_START]'' @ J)" by simp
        then show ?thesis by simp
      next
        case (Cons y ys)
        with 3 \<open>p2 = x # xs\<close> have "x \<in> set ''JSON_END]''" by auto
        with x show ?thesis by simp
      qed
    qed
  qed
next
  assume "sublist ''[JSON_END]'' A \<or> sublist ''[JSON_END]'' J"
  then show "sublist ''[JSON_END]'' (A @ ''[JSON_START]'' @ J)"
  proof
    assume "sublist ''[JSON_END]'' A"
    then obtain ps ss where "A = ps @ ''[JSON_END]'' @ ss"
      by (auto simp: sublist_def)
    then have "A @ ''[JSON_START]'' @ J = ps @ ''[JSON_END]'' @ (ss @ ''[JSON_START]'' @ J)"
      by simp
    then show ?thesis unfolding sublist_def by blast
  next
    assume "sublist ''[JSON_END]'' J"
    then obtain ps ss where "J = ps @ ''[JSON_END]'' @ ss"
      by (auto simp: sublist_def)
    then have "A @ ''[JSON_START]'' @ J = (A @ ''[JSON_START]'' @ ps) @ ''[JSON_END]'' @ ss"
      by simp
    then show ?thesis unfolding sublist_def by blast
  qed
qed

section \<open>The response parser on marked completions\<close>

lemma start_marker_found:
  assumes "\<not> sublist ''[JSON_START]'' A"
  shows "str_find (A @ ''[JSON_START]'' @ rest) ''[JSON_START]'' = int (length A)"
proof -
  have "find_opt (A @ (CHR ''['' # ''JSON_START]'') @ rest) (CHR ''['' # ''JSON_START]'')
          = Some (length A)"
    by (rule find_opt_first) (use assms in simp_all)
  then show ?thesis by (simp add: str_find_def)
qed

lemma end_marker_found:
  assumes "\<not> sublist ''[JSON_END]'' B"
  shows "str_find (B @ ''[JSON_END]'' @ rest) ''[JSON_END]'' = int (length B)"
proof -
  have "find_opt (B @ (CHR ''['' # ''JSON_END]'') @ rest) (CHR ''['' # ''JSON_END]'')
          = Some (length B)"
    by (rule find_opt_first) (use assms in simp_all)
  then show ?thesis by (simp add: str_find_def)
qed

lemma well_formed_positions:
  assumes "\<not> sublist ''[JSON_START]'' A" "\<not> sublist ''[JSON_END]'' A" "\<not> sublist ''[JSON_END]'' J"
  defines "t \<equiv> A @ ''[JSON_START]'' @ J @ ''[JSON_END]''"
  shows "str_slice t 0 (str_find t ''[JSON_START]'') = A"
    and "str_slice t (str_find t ''[JSON_START]'' + int (length ''[JSON_START]''))
           (str_find t ''[JSON_END]'') = J"
proof -
  have s: "str_find t ''[JSON_START]'' = int (length A)"
    unfolding t_def using assms(1) by (rule start_marker_found)
  have "\<not> sublist ''[JSON_END]'' (A @ ''[JSON_START]'' @ J)"
    using assms(2,3) end_marker_between[of A J] by simp
  then have "str_find ((A @ ''[JSON_START]'' @ J) @ ''[JSON_END]'' @ []) ''[JSON_END]''
               = int (length (A @ ''[JSON_START]'' @ J))"
    by (rule end_marker_found)
  then have e: "str_find t ''[JSON_END]'' = int (length A + 12 + length J)"
    by (simp add: t_def)
  have "str_slice t (int 0) (int (length A)) = take (length A - 0) (drop 0 t)"
    by (rule str_slice_nat) (simp_all add: t_def)
  with s show "str_slice t 0 (str_find t ''[JSON_START]'') = A"
    by (simp add: t_def)
  have "str_slice t (int (length A + 12)) (int (length A + 12 + length J))
          = take (length A + 12 + length J - (length A + 12)) (drop (length A + 12) t)"
    by (rule str_slice_nat) (simp_all add: t_def)
  with s e show "str_slice t (str_find t ''[JSON_START]'' + int (length ''[JSON_START]''))
           (str_find t ''[JSON_END]'') = J"
    by (simp add: t_def)
qed

text \<open>
  C1 (as amended). For a completion \<open>A + "[JSON_START]" + J + "[JSON_END]"\<close> where \<open>A\<close>
  contains neither sentinel, \<open>J\<close> does not contain the end sentinel and \<open>J\<close> is valid
  JSON with value \<open>v\<close> (for a decoder that, like \<open>json.loads\<close>, ignores the white
  space around \<open>J\<close>), the parser returns \<open>v\<close> and the analysis is \<open>A\<close> trimmed.
\<close>

theorem round_trip:
  assumes "\<not> sublist ''[JSON_START]'' A" and "\<not> sublist ''[JSON_END]'' A"
    and "\<not> sublist ''[JSON_END]'' J"
    and "json_loads env J = Inr v" and "json_loads env (strip J) = json_loads env J"
  shows "extract_json_from_text env (A @ ''[JSON_START]'' @ J @ ''[JSON_END]'') = Inr v \<and>
         snd (generate_financial_model
                (env\<lparr>create := \<lambda>request. Inr (Some (A @ ''[JSON_START]'' @ J @ ''[JSON_END]''))\<rparr>)
                name design previous fb)
           = Inr (strip A, v)"
proof -
  let ?t = "A @ ''[JSON_START]'' @ J @ ''[JSON_END]''"
  let ?env = "env\<lparr>create := \<lambda>request. Inr (Some ?t)\<rparr>"
  note pos = well_formed_positions[OF assms(1-3)]
  have x: "extract_json_from_text env ?t = Inr v"
    using assms(4,5) pos(2) by (simp add: extract_json_from_text_def)
  have "extract_json_from_text ?env ?t = extract_json_from_text env ?t"
    by (simp add: extract_json_from_text_def)
  with x have "snd (generate_financial_model ?env name design previous fb) = Inr (strip A, v)"
    using pos(1) by (simp add: generate_financial_model_def Let_def)
  with x show ?thesis by simp
qed



text \<open>
  C4 (as amended). The user instruction is the instruction built without the pair,
  followed by the refinement clause, which embeds the previous output and the feedback
  verbatim, exactly when both are given and both are non-empty; otherwise nothing is
  appended.
\<close>

theorem refinement_clause_iff_both_nonempty:
  "construct_user_prompt name design existing_output feedback =
     construct_user_prompt name design None None @
     (case (existing_output, feedback) of
        (Some previous, Some fb) \<Rightarrow>
          if previous \<noteq> [] \<and> fb \<noteq> []
          then ''\<newline>\<newline>\<newline>Previous financial model: '' @ previous @
               ''\<newline>\<newline>Please refine the model based on this feedback: '' @ fb @ ''\<newline>''
          else []
      | _ \<Rightarrow> [])"
  by (simp add: construct_user_prompt_def truthy_def fmt_def Let_def split: option.splits)

lemma generate_model_calls:
  "fst (generate_model env request) =
     [\<lparr>model = ''gpt-4'',
       messages = [(''system'', construct_system_prompt),
                   (''user'', construct_user_prompt (company_name request)
                      (case previous_data request of None \<Rightarrow> None
                       | Some pd \<Rightarrow> loyalty_program_design pd)
                      (map_option existing_generated_output (current_prompt_data request))
                      (map_option user_feedback (current_prompt_data request)))],
       temperature = ''0.7'', max_tokens = 2500\<rparr>]"
  by (simp add: generate_model_def generate_financial_model_def Let_def split_def
           split: option.splits)

lemma sent_user_prompt:
  "sent_prompts (fst (generate_model env request)) ''user'' =
     [construct_user_prompt (company_name request)
        (case previous_data request of None \<Rightarrow> None | Some pd \<Rightarrow> loyalty_program_design pd)
        (map_option existing_generated_output (current_prompt_data request))
        (map_option user_feedback (current_prompt_data request))]"
  by (simp add: generate_model_calls sent_prompts_def)

lemma design_in_prompt:
  "sublist design (construct_user_prompt name (Some design) existing_output feedback)"
proof (cases "design = []")
  case True
  then show ?thesis by simp
next
  case False
  let ?p = "''Please create a financial model for '' @ name @ '''s loyalty program.''
              @ ''\<newline>\<newline>Consider this program design: ''"
  let ?r = "if truthy existing_output \<and> truthy feedback
            then ''\<newline>\<newline>\<newline>Previous financial model: '' @ fmt existing_output @
                 ''\<newline>\<newline>Please refine the model based on this feedback: '' @ fmt feedback @
                 ''\<newline>''
            else []"
  have "construct_user_prompt name (Some design) existing_output feedback = ?p @ design @ ?r"
    using False by (simp add: construct_user_prompt_def truthy_def fmt_def Let_def)
  then show ?thesis by (simp only: sublist_appendI)
qed

text \<open>
  C5. When \<open>previous_data.loyalty_program_design\<close> of the request is set to a string, one
  user instruction is sent and it contains that string.
\<close>

theorem design_text_in_user_instruction:
  "\<exists>u. sent_prompts (fst (generate_model env
            (request\<lparr>previous_data := Some \<lparr>loyalty_program_design = Some design\<rparr>\<rparr>))) ''user'' = [u]
       \<and> sublist design u"
  by (simp add: sent_user_prompt design_in_prompt)

section \<open>Prompts, validation and the shape of the outcome\<close>

lemma sublist_skip_char:
  assumes "c \<notin> set P"
  shows "sublist P (xs @ c # ys) \<longleftrightarrow> sublist P xs \<or> sublist P ys"
proof
  assume "sublist P (xs @ c # ys)"
  then consider "sublist P xs" | "sublist P (c # ys)"
    | p1 p2 where "P = p1 @ p2" "suffix p1 xs" "prefix p2 (c # ys)"
    by (auto simp: sublist_append)
  then show "sublist P xs \<or> sublist P ys"
  proof cases
    case 1 then show ?thesis by simp
  next
    case 2
    with assms show ?thesis
      by (auto simp: sublist_Cons_right prefix_Cons)
  next
    case 3
    with assms have "p2 = []" by (auto simp: prefix_Cons)
    with 3 show ?thesis by (auto simp: suffix_imp_sublist)
  qed
next
  assume "sublist P xs \<or> sublist P ys"
  then show "sublist P (xs @ c # ys)"
    by (auto simp: sublist_append sublist_Cons_right)
qed

lemma plain_prompt:
  "construct_user_prompt name None None None =
     ''Please create a financial model for '' @ name @ '''s loyalty program.''"
  by (simp add: construct_user_prompt_def truthy_def Let_def)

lemma design_phrase_only_from_name:
  "sublist ''Consider this program design''
     (''Please create a financial model for '' @ name @ '''s loyalty program.'')
   = sublist ''Consider this program design'' name"
  by (simp add: sublist_Cons_right sublist_skip_char[where c = "CHR 0x27"])

lemma refine_phrase_only_from_name:
  "sublist ''Previous financial model''
     (''Please create a financial model for '' @ name @ '''s loyalty program.'')
   = sublist ''Previous financial model'' name"
  by (simp add: sublist_Cons_right sublist_skip_char[where c = "CHR 0x27"])

text \<open>
  C6 (as amended). For a request that supplies only the company name (no previous data, or previous
  data without a design, and no current prompt data), the user instruction is exactly the
  opening sentence around the company name: it contains the name, nothing is appended to
  it, and the phrases that open the design clause and the refinement clause occur in it
  only where they occur in the company name itself.
\<close>

theorem company_name_only_prompt:
  fixes request :: "'o FinancialModelRequest" and env :: "'j env"
  defines "u \<equiv> ''Please create a financial model for '' @ company_name request @
                 '''s loyalty program.''"
  shows "sent_prompts (fst (generate_model env
            (request\<lparr>previous_data := None, current_prompt_data := None\<rparr>))) ''user'' = [u]
       \<and> sent_prompts (fst (generate_model env
            (request\<lparr>previous_data := Some \<lparr>loyalty_program_design = None\<rparr>,
                     current_prompt_data := None\<rparr>))) ''user'' = [u]
       \<and> sublist (company_name request) u
       \<and> sublist ''Consider this program design'' u
            = sublist ''Consider this program design'' (company_name request)
       \<and> sublist ''Previous financial model'' u
            = sublist ''Previous financial model'' (company_name request)"
proof -
  have "sent_prompts (fst (generate_model env
            (request\<lparr>previous_data := None, current_prompt_data := None\<rparr>))) ''user'' = [u]"
    by (simp only: sent_user_prompt u_def) (simp add: plain_prompt)
  moreover have "sent_prompts (fst (generate_model env
            (request\<lparr>previous_data := Some \<lparr>loyalty_program_design = None\<rparr>,
                     current_prompt_data := None\<rparr>))) ''user'' = [u]"
    by (simp only: sent_user_prompt u_def) (simp add: plain_prompt)
  moreover have "sublist (company_name request) u"
    unfolding u_def by (rule sublist_appendI)
  moreover have "sublist ''Consider this program design'' u
            = sublist ''Consider this program design'' (company_name request)"
    unfolding u_def by (rule design_phrase_only_from_name)
  moreover have "sublist ''Previous financial model'' u
            = sublist ''Previous financial model'' (company_name request)"
    unfolding u_def by (rule refine_phrase_only_from_name)
  ultimately show ?thesis by blast
qed

lemma refused_other_input_data_rejected:
  assumes "v \<noteq> JNull" and "validate_dict env v = None"
  shows "post_generate env (body\<lparr>body_other_input_data := Some v\<rparr>)
           = ([], Inl (RequestValidationError (missing_fields body @ [''other_input_data''])))"
  using assms
  by (simp add: post_generate_def validate_request_def missing_fields_def invalid_fields_def
        validate_other_input_data_def split: option.splits prod.splits)

text \<open>
  C8 (as amended). A request body without a company name is answered with a validation
  error of status 422 that names the field, and no request is sent to the completion
  provider.
\<close>

theorem missing_company_name_rejected:
  assumes "body_company_name body = None"
  shows "post_generate env body
           = ([], Inl (RequestValidationError (missing_fields body @ invalid_fields env body)))
       \<and> ''company_name'' \<in> set (missing_fields body @ invalid_fields env body)
       \<and> response_status (RequestValidationError (missing_fields body @ invalid_fields env body))
           = 422"
  using assms by (simp add: post_generate_def validate_request_def missing_fields_def)

text \<open>
  C9. Every request sends one completion request and then either fails with status 500, or
  succeeds with a response that holds both parts, computed from the one completion text
  the provider returned: the trimmed text before the start sentinel, and the validated
  value that the parser extracted.
\<close>

theorem all_or_nothing:
  "\<exists>call. fst (generate_model env request) = [call] \<and>
     (case snd (generate_model env request) of
        Inl e \<Rightarrow> response_status e = 500
      | Inr r \<Rightarrow>
          (\<exists>t j. create env call = Inr (Some t)
               \<and> generated_output r = strip (str_slice t 0 (str_find t ''[JSON_START]''))
               \<and> extract_json_from_text env t = Inr j
               \<and> validate_dict env j = Some (structured_data r)))"
  by (auto simp: generate_model_def generate_financial_model_def Let_def split_def
           split: sum.splits option.splits)

text \<open>
  C10. For two requests that differ only in \<open>other_input_data\<close> the handler sends the same
  requests to the provider (system and user instruction included) and computes the same
  outcome.
\<close>

theorem other_input_data_ignored:
  "generate_model env (request\<lparr>other_input_data := x\<rparr>) = generate_model env request"
  by (simp add: generate_model_def)

section \<open>Concrete runs\<close>

lemma mock_env_create:
  "(mock_env t)\<lparr>create := \<lambda>request. Inr (Some t')\<rparr> = mock_env t'"
  by (simp add: mock_env_def)

lemma mock_env_fields:
  "json_loads (mock_env t) = json_decode"
  "exception_str (mock_env t) = http_exception_str"
  "validate_dict (mock_env t) = json_dict"
  "create (mock_env t) call = Inr (Some t)"
  by (simp_all add: mock_env_def)

text \<open>
  C1, the round trip of the spec: \<open><analysis>[JSON_START]{"a":1}[JSON_END]\<close> gives the
  analysis \<open><analysis>\<close> and the object \<open>{"a": 1}\<close>.
\<close>

theorem round_trip_witness:
  "\<not> sublist ''[JSON_START]'' ''<analysis>'' \<and> \<not> sublist ''[JSON_END]'' ''<analysis>''
   \<and> \<not> sublist ''[JSON_END]'' ''{\"a\":1}''
   \<and> json_decode ''{\"a\":1}'' = Inr (JObject [(''a'', JInt 1)])
   \<and> json_decode (strip ''{\"a\":1}'') = json_decode ''{\"a\":1}''
   \<and> extract_json_from_text (mock_env ''<analysis>[JSON_START]{\"a\":1}[JSON_END]'')
         ''<analysis>[JSON_START]{\"a\":1}[JSON_END]'' = Inr (JObject [(''a'', JInt 1)])
   \<and> snd (generate_financial_model (mock_env ''<analysis>[JSON_START]{\"a\":1}[JSON_END]'')
         ''Acme Corp'' None None None) = Inr (''<analysis>'', JObject [(''a'', JInt 1)])"
proof -
  let ?env = "mock_env ''<analysis>[JSON_START]{\"a\":1}[JSON_END]''"
  have h1: "\<not> sublist ''[JSON_START]'' ''<analysis>''" by code_simp
  have h2: "\<not> sublist ''[JSON_END]'' ''<analysis>''" by code_simp
  have h3: "\<not> sublist ''[JSON_END]'' ''{\"a\":1}''" by code_simp
  have d: "json_decode ''{\"a\":1}'' = Inr (JObject [(''a'', JInt 1)])" by code_simp
  have s: "strip ''{\"a\":1}'' = ''{\"a\":1}''" by code_simp
  have a: "strip ''<analysis>'' = ''<analysis>''" by code_simp
  have h4: "json_loads ?env ''{\"a\":1}'' = Inr (JObject [(''a'', JInt 1)])"
    by (simp only: mock_env_fields d)
  have h5: "json_loads ?env (strip ''{\"a\":1}'') = json_loads ?env ''{\"a\":1}''"
    by (simp only: s)
  have t: "''<analysis>'' @ ''[JSON_START]'' @ ''{\"a\":1}'' @ ''[JSON_END]''
             = ''<analysis>[JSON_START]{\"a\":1}[JSON_END]''" by simp
  note r = round_trip[OF h1 h2 h3 h4 h5, of "''Acme Corp''" None None None,
                      unfolded t mock_env_create a]
  from r h1 h2 h3 d s show ?thesis by (simp only: simp_thms)
qed

text \<open>
  C1 as stated fails when the JSON object itself contains the end sentinel inside a string:
  \<open>ok[JSON_START]{"a":"[JSON_END]"}[JSON_END]\<close> has an analysis part with no sentinel and
  a valid JSON object between the sentinels, yet the end sentinel is searched from the
  start of the text, the segment is cut at \<open>{"a":"\<close> and the request fails.
\<close>

theorem round_trip_counterexample:
  "\<not> sublist ''[JSON_START]'' ''ok'' \<and> \<not> sublist ''[JSON_END]'' ''ok''
   \<and> json_decode ''{\"a\":\"[JSON_END]\"}'' = Inr (JObject [(''a'', JString ''[JSON_END]'')])
   \<and> extract_json_from_text (mock_env ''ok[JSON_START]{\"a\":\"[JSON_END]\"}[JSON_END]'')
         ''ok[JSON_START]{\"a\":\"[JSON_END]\"}[JSON_END]''
       = Inl (HTTPException 500 ''Failed to parse structured data from response: Unterminated string starting at: line 1 column 6 (char 5)'')
   \<and> snd (generate_financial_model (mock_env ''ok[JSON_START]{\"a\":\"[JSON_END]\"}[JSON_END]'')
         ''Acme Corp'' None None None)
       = Inl (HTTPException 500 ''500: Failed to parse structured data from response: Unterminated string starting at: line 1 column 6 (char 5)'')"
  by code_simp

text \<open>
  C2 at the completion \<open>Result is: {"a":1}.\<close>, which has no start sentinel (and no end
  sentinel): both searches answer \<open>-1\<close>, the segment is \<open>text[11:-1]\<close>, which is a JSON
  object, and the analysis is \<open>text[:-1]\<close>. The request succeeds with structured data
  instead of failing with a parse error.
\<close>

theorem missing_start_marker_accepted:
  "\<not> sublist ''[JSON_START]'' ''Result is: {\"a\":1}.''
   \<and> snd (generate_model (mock_env ''Result is: {\"a\":1}.'') acme)
       = Inr \<lparr>generated_output = ''Result is: {\"a\":1}'',
              structured_data = JObject [(''a'', JInt 1)]\<rparr>"
  by code_simp

text \<open>
  C3 at a completion with the start sentinel, no end sentinel and a final newline: the
  search for the end sentinel answers \<open>-1\<close>, the segment is everything after the start
  sentinel but the last character, and the request succeeds with structured data instead
  of failing with a parse error.
\<close>

theorem missing_end_marker_accepted:
  "sublist ''[JSON_START]'' ''Summary[JSON_START]{\"a\":1}\<newline>''
   \<and> \<not> sublist ''[JSON_END]'' ''Summary[JSON_START]{\"a\":1}\<newline>''
   \<and> snd (generate_model (mock_env ''Summary[JSON_START]{\"a\":1}\<newline>'') acme)
       = Inr \<lparr>generated_output = ''Summary'',
              structured_data = JObject [(''a'', JInt 1)]\<rparr>"
  by code_simp

text \<open>
  C4 as stated fails when one of the pair is the empty string: both are given (not null),
  and no refinement clause is appended.
\<close>

theorem refinement_clause_counterexample:
  "construct_user_prompt ''Acme Corp'' None (Some '''') (Some ''Lower the costs'')
     = ''Please create a financial model for Acme Corp's loyalty program.''
   \<and> \<not> sublist ''Previous financial model''
         (construct_user_prompt ''Acme Corp'' None (Some '''') (Some ''Lower the costs''))
   \<and> \<not> sublist ''Lower the costs''
         (construct_user_prompt ''Acme Corp'' None (Some '''') (Some ''Lower the costs''))"
  by code_simp

text \<open>
  C4 with both texts non-empty.
\<close>

theorem refinement_clause_witness:
  "construct_user_prompt ''Acme Corp'' None (Some ''old model'') (Some ''Lower the costs'')
     = ''Please create a financial model for Acme Corp's loyalty program.\<newline>\<newline>\<newline>Previous financial model: old model\<newline>\<newline>Please refine the model based on this feedback: Lower the costs\<newline>''"
proof -
  have p: "construct_user_prompt ''Acme Corp'' None None None
             = ''Please create a financial model for Acme Corp's loyalty program.''"
    by code_simp
  from refinement_clause_iff_both_nonempty
         [of "''Acme Corp''" None "Some ''old model''" "Some ''Lower the costs''"] p
  show ?thesis by simp
qed

text \<open>
  C5 for the design \<open>Points per dollar\<close>.
\<close>

theorem design_text_in_user_instruction_witness:
  "sent_prompts (fst (generate_model (mock_env '''')
      (acme\<lparr>previous_data := Some \<lparr>loyalty_program_design = Some ''Points per dollar''\<rparr>\<rparr>))) ''user''
     = [''Please create a financial model for Acme Corp's loyalty program.\<newline>\<newline>Consider this program design: Points per dollar'']
   \<and> sublist ''Points per dollar''
         ''Please create a financial model for Acme Corp's loyalty program.\<newline>\<newline>Consider this program design: Points per dollar''"
proof -
  let ?calls = "fst (generate_model (mock_env '''')
      (acme\<lparr>previous_data := Some \<lparr>loyalty_program_design = Some ''Points per dollar''\<rparr>\<rparr>))"
  from design_text_in_user_instruction[where env = "mock_env ''''" and request = acme
         and design = "''Points per dollar''"]
  obtain u where u: "sent_prompts ?calls ''user'' = [u]" "sublist ''Points per dollar'' u"
    by blast
  have e: "sent_prompts ?calls ''user''
     = [''Please create a financial model for Acme Corp's loyalty program.\<newline>\<newline>Consider this program design: Points per dollar'']"
    by code_simp
  from u(1) e have "u = ''Please create a financial model for Acme Corp's loyalty program.\<newline>\<newline>Consider this program design: Points per dollar''"
    by simp
  with u(2) e show ?thesis by (simp only: simp_thms)
qed

text \<open>
  C6 as stated fails for a company name that itself holds the phrase: the request supplies
  only the company name \<open>Consider this program design\<close>, nothing is appended, and the
  user instruction contains the phrase that opens the design clause.
\<close>

theorem company_name_only_counterexample:
  "previous_data (acme\<lparr>company_name := ''Consider this program design''\<rparr>) = None
   \<and> current_prompt_data (acme\<lparr>company_name := ''Consider this program design''\<rparr>) = None
   \<and> sent_prompts (fst (generate_model (mock_env '''')
         (acme\<lparr>company_name := ''Consider this program design''\<rparr>))) ''user''
       = [''Please create a financial model for Consider this program design's loyalty program.'']
   \<and> sublist ''Consider this program design''
         ''Please create a financial model for Consider this program design's loyalty program.''"
  by code_simp

text \<open>
  C6 for the company name \<open>Acme Corp\<close>.
\<close>

theorem company_name_only_prompt_witness:
  "sent_prompts (fst (generate_model (mock_env '''')
      (acme\<lparr>previous_data := None, current_prompt_data := None\<rparr>))) ''user''
     = [''Please create a financial model for Acme Corp's loyalty program.'']
   \<and> sublist ''Acme Corp'' ''Please create a financial model for Acme Corp's loyalty program.''
   \<and> \<not> sublist ''Consider this program design''
         ''Please create a financial model for Acme Corp's loyalty program.''
   \<and> \<not> sublist ''Previous financial model''
         ''Please create a financial model for Acme Corp's loyalty program.''"
proof -
  have n: "company_name acme = ''Acme Corp''" by (simp add: acme_def)
  have c: "\<not> sublist ''Consider this program design'' ''Acme Corp''"
    "\<not> sublist ''Previous financial model'' ''Acme Corp''" by code_simp+
  from company_name_only_prompt[of "mock_env ''''" acme] n c
  show ?thesis by simp
qed


text \<open>
  C8 as stated fails for an empty company name: the body passes validation, the provider
  is called with the instruction built around the empty name, and the request succeeds.
\<close>

theorem empty_company_name_counterexample:
  "post_generate (mock_env ''Summary[JSON_START]{\"a\":1}[JSON_END]'') (body_of (Some ''''))
     = ([\<lparr>model = ''gpt-4'',
          messages = [(''system'', construct_system_prompt),
                      (''user'', ''Please create a financial model for 's loyalty program.'')],
          temperature = ''0.7'', max_tokens = 2500\<rparr>],
        Inr \<lparr>generated_output = ''Summary'', structured_data = JObject [(''a'', JInt 1)]\<rparr>)"
  by code_simp

text \<open>
  C8 for a body without company name.
\<close>

theorem missing_company_name_rejected_witness:
  "body_company_name (body_of None) = None
   \<and> post_generate (mock_env ''Summary[JSON_START]{\"a\":1}[JSON_END]'') (body_of None)
       = ([], Inl (RequestValidationError [''company_name'']))
   \<and> response_status (RequestValidationError [''company_name'']) = 422"
proof -
  have h: "body_company_name (body_of None) = None" by (simp add: body_of_def)
  have m: "missing_fields (body_of None)
             @ invalid_fields (mock_env ''Summary[JSON_START]{\"a\":1}[JSON_END]'') (body_of None)
           = [''company_name'']"
    by (simp add: missing_fields_def invalid_fields_def validate_other_input_data_def
          body_of_def)
  from missing_company_name_rejected[OF h, of "mock_env ''Summary[JSON_START]{\"a\":1}[JSON_END]''"] h m
  show ?thesis by simp
qed

text \<open>
  C9 and C10 at the end-to-end scenario.
\<close>

theorem all_or_nothing_witness:
  "\<exists>call. fst (generate_model (mock_env ''Summary[JSON_START]{\"a\":1}[JSON_END]'') acme) = [call] \<and>
     (case snd (generate_model (mock_env ''Summary[JSON_START]{\"a\":1}[JSON_END]'') acme) of
        Inl e \<Rightarrow> response_status e = 500
      | Inr r \<Rightarrow>
          (\<exists>t j. create (mock_env ''Summary[JSON_START]{\"a\":1}[JSON_END]'') call = Inr (Some t)
               \<and> generated_output r = strip (str_slice t 0 (str_find t ''[JSON_START]''))
               \<and> extract_json_from_text (mock_env ''Summary[JSON_START]{\"a\":1}[JSON_END]'') t = Inr j
               \<and> validate_dict (mock_env ''Summary[JSON_START]{\"a\":1}[JSON_END]'') j
                    = Some (structured_data r)))"
  by (rule all_or_nothing)

theorem other_input_data_ignored_witness:
  "generate_model (mock_env ''Summary[JSON_START]{\"a\":1}[JSON_END]'')
       (acme\<lparr>other_input_data := Some (JObject [(''segment'', JString ''retail'')])\<rparr>)
     = generate_model (mock_env ''Summary[JSON_START]{\"a\":1}[JSON_END]'') acme"
  by (rule other_input_data_ignored)

end
